theory Spec2Isabelle
  imports Complex_Main
begin

section \<open>Data model of the search route (src/app/api/search/route.ts)\<close>

text \<open>
  The route is one asynchronous handler \<open>GET\<close> over two module-level stores: the
  in-process \<open>Map\<close> called \<open>cache\<close> (L1) and the Upstash Redis client (L2). The
  model passes both stores explicitly, takes the behaviour of the outside world for
  one request (clock, Redis, the two retailer APIs) as an \<open>env\<close> value, and returns
  the response together with the updated stores and the list of external calls made.

  Strings are HOL strings, except the \<open>page\<close> parameter, which is kept as its UTF-16
  code units because \<open>parseInt\<close> looks at white space beyond the 8-bit characters.
  JavaScript numbers are \<open>js_number\<close> (the page: an integer-valued double or an
  infinity), \<open>nat\<close> (milliseconds) or \<open>rat\<close> (decoded JSON numbers).
\<close>

datatype provider_tag = Amazon | BestBuy

record UnifiedResult =
  source :: provider_tag
  title :: string
  price :: "string option"
  link :: string
  thumbnail :: "string option"
  rating :: "rat option"
  reviews :: "rat option"

text \<open>\<open>ProviderResult\<close> is also the shape of the cached payload \<open>{ results, hasMore }\<close>.\<close>

record ProviderResult =
  results :: "UnifiedResult list"
  hasMore :: bool

record CacheEntry =
  expires :: nat
  data :: ProviderResult

definition CACHE_TTL_MS :: nat where
  "CACHE_TTL_MS = 60000"

definition REDIS_TTL_SECONDS :: nat where
  "REDIS_TTL_SECONDS = 60 * 10"

definition empty_outcome :: ProviderResult where
  "empty_outcome = \<lparr>results = [], hasMore = False\<rparr>"

subsection \<open>JavaScript string and number helpers\<close>

text \<open>
  \<open>String.prototype.toLowerCase\<close>, on the ASCII letters; every other character is
  left as it is.
\<close>

definition toLowerChar :: "char \<Rightarrow> char" where
  "toLowerChar c =
     (case map_of (zip ''ABCDEFGHIJKLMNOPQRSTUVWXYZ'' ''abcdefghijklmnopqrstuvwxyz'') c of
        Some l \<Rightarrow> l
      | None \<Rightarrow> c)"

definition toLowerCase :: "string \<Rightarrow> string" where
  "toLowerCase s = map toLowerChar s"

text \<open>The decimal digits of a natural number.\<close>

fun show_nat :: "nat \<Rightarrow> string" where
  "show_nat n =
     (if n < 10 then [''0123456789'' ! n]
      else show_nat (n div 10) @ [''0123456789'' ! (n mod 10)])"

declare show_nat.simps [simp del]

text \<open>
  The numbers \<open>parseInt\<close> can return, \<open>NaN\<close> apart: a double whose value is an integer
  (\<open>Finite\<close>, with that value), \<open>Infinity\<close> or \<open>-Infinity\<close>. Negative zero is not
  told from zero; both are falsy.
\<close>

datatype js_number = Finite int | PosInfinity | NegInfinity

text \<open>
  The double nearest to a natural number, ties to the even significand; \<open>None\<close> when
  the rounded value leaves the double range, which JavaScript gives as \<open>Infinity\<close>.
  A double has 53 significant bits and is below \<open>2^1024\<close>.
\<close>

fun bit_length :: "nat \<Rightarrow> nat" where
  "bit_length n = (if n = 0 then 0 else Suc (bit_length (n div 2)))"

declare bit_length.simps [simp del]

definition round_double :: "nat \<Rightarrow> nat option" where
  "round_double m =
     (if m < 2 ^ 53 then Some m
      else
        (let e = bit_length m - 53;
             q = m div 2 ^ e;
             r = m mod 2 ^ e;
             q' = (if 2 ^ (e - 1) < r \<or> (r = 2 ^ (e - 1) \<and> odd q) then q + 1 else q)
         in if 2 ^ 1024 \<le> q' * 2 ^ e then None else Some (q' * 2 ^ e)))"

text \<open>
  \<open>Number::toString\<close> in radix 10 on a positive integer-valued double \<open>x\<close>: the decimal
  with the fewest significant digits \<open>k\<close> that rounds to \<open>x\<close>, the one nearest to \<open>x\<close>
  when two have \<open>k\<close> digits (the lower on a tie). It is printed in full when it has at
  most 21 digits and in exponent notation otherwise.
\<close>

definition decimal_candidates :: "nat \<Rightarrow> nat \<Rightarrow> nat list" where
  "decimal_candidates x k =
     (let j = length (show_nat x) - k;
          lo = x div 10 ^ j
      in filter (\<lambda>v. round_double v = Some x) [lo * 10 ^ j, (lo + 1) * 10 ^ j])"

definition closest :: "nat \<Rightarrow> nat list \<Rightarrow> nat" where
  "closest x vs =
     (case vs of
        [] \<Rightarrow> x
      | [v] \<Rightarrow> v
      | a # b # _ \<Rightarrow> if x - a \<le> b - x then a else b)"

definition shortest_decimal :: "nat \<Rightarrow> nat" where
  "shortest_decimal x =
     (case find (\<lambda>k. decimal_candidates x k \<noteq> []) [1..<Suc (min 17 (length (show_nat x)))] of
        Some k \<Rightarrow> closest x (decimal_candidates x k)
      | None \<Rightarrow> x)"

definition strip_zeros :: "string \<Rightarrow> string" where
  "strip_zeros ds = rev (dropWhile (\<lambda>c. c = CHR ''0'') (rev ds))"

definition double_to_string :: "nat \<Rightarrow> string" where
  "double_to_string x =
     (let ds = show_nat (shortest_decimal x); n = length ds
      in if n \<le> 21 then ds
         else (case strip_zeros ds of
                 [] \<Rightarrow> ds
               | d # rest \<Rightarrow>
                   (if rest = [] then [d] else d # CHR ''.'' # rest) @ ''e+'' @ show_nat (n - 1)))"

text \<open>A number inside a template literal, as \<open>${page}\<close> in the cache keys.\<close>

definition number_to_string :: "js_number \<Rightarrow> string" where
  "number_to_string x =
     (case x of
        Finite i \<Rightarrow>
          if i < 0 then ''-'' @ double_to_string (nat (- i)) else double_to_string (nat i)
      | PosInfinity \<Rightarrow> ''Infinity''
      | NegInfinity \<Rightarrow> ''-Infinity'')"

text \<open>
  \<open>parseInt(s, 10)\<close> on the code units of \<open>s\<close>: leading white space
  (\<open>StrWhiteSpaceChar\<close>: the white space and line terminator code points, all in the
  basic plane) is trimmed, one sign is read, then the longest run of decimal digits.
  No digit gives \<open>NaN\<close>, which is \<open>None\<close> here; otherwise the signed value of the run
  is rounded to a double. The value of the run is taken exactly before rounding; the
  language standard lets an implementation read digits after the 20th as zeros.
\<close>

type_synonym code_unit = nat

definition code_units :: "string \<Rightarrow> code_unit list" where
  "code_units s = map of_char s"

definition is_white_space :: "code_unit \<Rightarrow> bool" where
  "is_white_space c \<longleftrightarrow>
     c \<in> set [0x09, 0x0A, 0x0B, 0x0C, 0x0D, 0x20, 0xA0, 0x1680, 0x2028, 0x2029, 0x202F,
              0x205F, 0x3000, 0xFEFF] \<or>
     (0x2000 \<le> c \<and> c \<le> 0x200A)"

definition is_digit :: "code_unit \<Rightarrow> bool" where
  "is_digit c \<longleftrightarrow> 0x30 \<le> c \<and> c \<le> 0x39"

definition digit_value :: "code_unit \<Rightarrow> nat" where
  "digit_value c = c - 0x30"

definition digits_value :: "code_unit list \<Rightarrow> nat" where
  "digits_value ds = foldl (\<lambda>a c. 10 * a + digit_value c) 0 ds"

definition minus_sign :: "code_unit list \<Rightarrow> bool" where
  "minus_sign s = (case dropWhile is_white_space s of [] \<Rightarrow> False | c # _ \<Rightarrow> c = 0x2D)"

definition digit_run :: "code_unit list \<Rightarrow> code_unit list" where
  "digit_run s =
     takeWhile is_digit
       (case dropWhile is_white_space s of
          [] \<Rightarrow> []
        | c # r \<Rightarrow> if c = 0x2D \<or> c = 0x2B then r else c # r)"

definition signed_double :: "bool \<Rightarrow> nat \<Rightarrow> js_number" where
  "signed_double neg m =
     (case round_double m of
        Some n \<Rightarrow> Finite (if neg then - int n else int n)
      | None \<Rightarrow> if neg then NegInfinity else PosInfinity)"

definition parseInt :: "code_unit list \<Rightarrow> js_number option" where
  "parseInt s =
     (if digit_run s = [] then None
      else Some (signed_double (minus_sign s) (digits_value (digit_run s))))"

text \<open>
  \<open>Number.prototype.toFixed(2)\<close> on the exact value of the number, for magnitudes
  below \<open>10^21\<close> (above it JavaScript switches to exponent notation).
\<close>

definition toFixed2 :: "rat \<Rightarrow> string" where
  "toFixed2 x =
     (let n = nat \<lfloor>\<bar>x\<bar> * 100 + 1 / 2\<rfloor>;
          m = show_nat n;
          m' = (if length m \<le> 2 then replicate (3 - length m) CHR ''0'' @ m else m);
          k = length m'
      in (if x < 0 then ''-'' else []) @ take (k - 2) m' @ ''.'' @ drop (k - 2) m')"

text \<open>JavaScript truthiness of a \<open>string | null | undefined\<close> value.\<close>

definition truthy :: "'a list option \<Rightarrow> bool" where
  "truthy v = (case v of None \<Rightarrow> False | Some s \<Rightarrow> s \<noteq> [])"

subsection \<open>Cache keys (lines 34-44)\<close>

definition makeCacheKey :: "string \<Rightarrow> js_number \<Rightarrow> string \<Rightarrow> string" where
  "makeCacheKey q page provider =
     toLowerCase q @ ''::'' @ number_to_string page @ ''::'' @ provider"

definition makeRedisKey :: "string \<Rightarrow> js_number \<Rightarrow> string \<Rightarrow> string" where
  "makeRedisKey q page provider =
     ''dealscope:search:v1:'' @ toLowerCase q @ ''::'' @ number_to_string page @ ''::'' @
     provider"

subsection \<open>Promises and the timeout helper (lines 47-60)\<close>

text \<open>
  A promise either settles some milliseconds after it was created, fulfilled (\<open>Inr\<close>)
  or rejected (\<open>Inl\<close>), or stays pending for ever.
\<close>

datatype js_error = Error string

datatype 'a promise = Settles nat "js_error + 'a" | Pending

text \<open>
  \<open>withTimeout\<close> races the promise against a timer of \<open>ms\<close> milliseconds. The promise
  wins when it settles strictly before the timer fires.
\<close>

definition withTimeout :: "'a promise \<Rightarrow> nat \<Rightarrow> 'a promise" where
  "withTimeout promise ms =
     (case promise of
        Settles d r \<Rightarrow>
          if d < ms then Settles d r else Settles ms (Inl (Error ''Request timed out''))
      | Pending \<Rightarrow> Settles ms (Inl (Error ''Request timed out'')))"

text \<open>\<open>promise.catch(handler)\<close> with a handler that returns a plain value.\<close>

definition promise_catch :: "'a promise \<Rightarrow> (js_error \<Rightarrow> 'a) \<Rightarrow> 'a promise" where
  "promise_catch promise handler =
     (case promise of
        Settles d (Inl err) \<Rightarrow> Settles d (Inr (handler err))
      | Settles d (Inr v) \<Rightarrow> Settles d (Inr v)
      | Pending \<Rightarrow> Pending)"

text \<open>
  \<open>Promise.all\<close>: rejected as soon as one input is rejected, fulfilled with all values
  once every input is fulfilled, pending otherwise.
\<close>

fun all_step :: "'a promise \<Rightarrow> 'a list promise \<Rightarrow> 'a list promise" where
  "all_step (Settles d (Inl e)) (Settles d' (Inl e')) =
     (if d' < d then Settles d' (Inl e') else Settles d (Inl e))"
| "all_step (Settles d (Inl e)) _ = Settles d (Inl e)"
| "all_step _ (Settles d' (Inl e')) = Settles d' (Inl e')"
| "all_step (Settles d (Inr v)) (Settles d' (Inr vs)) = Settles (max d d') (Inr (v # vs))"
| "all_step _ _ = Pending"

fun Promise_all :: "'a promise list \<Rightarrow> 'a list promise" where
  "Promise_all [] = Settles 0 (Inr [])"
| "Promise_all (p # ps) = all_step p (Promise_all ps)"

subsection \<open>The outside world of one request\<close>

text \<open>
  What \<open>fetch\<close> followed by \<open>res.json()\<close> yields: the status and the decoded body.
  \<open>None\<close> as body stands for a body that fails to decode or has a shape on which the
  adapter's field accesses throw. A rejected promise is a network error.
\<close>

datatype 'j http_response = HttpResponse nat "'j option"

definition ok :: "'j http_response \<Rightarrow> bool" where
  "ok res = (case res of HttpResponse st _ \<Rightarrow> 200 \<le> st \<and> st \<le> 299)"

text \<open>
  The decoded Rainforest body. A numeric field is \<open>Some\<close> exactly when the source's
  \<open>typeof ... === "number"\<close> test holds; \<open>pagination\<close> is \<open>Some (current_page, total_pages)\<close>
  exactly when the object is present with both numbers. Titles and links are strings,
  as the type \<open>UnifiedResult\<close> declares them. The Best Buy body is read the same way.
\<close>

record amazon_item =
  item_title :: string
  item_price_raw :: "string option"
  item_link :: string
  item_image :: "string option"
  item_rating :: "rat option"
  item_reviews :: "rat option"

record amazon_json =
  search_results :: "amazon_item list option"
  pagination :: "(rat \<times> rat) option"

record bestbuy_product =
  p_name :: string
  p_salePrice :: "rat option"
  p_regularPrice :: "rat option"
  p_url :: string
  p_image :: "string option"
  p_customerReviewAverage :: "rat option"
  p_customerReviewCount :: "rat option"

record bestbuy_json =
  products :: "bestbuy_product list option"
  totalPages :: "rat option"
  currentPage :: "rat option"

text \<open>The two environment variables read at module load (lines 6-7).\<close>

record config =
  RAINFOREST_API_KEY :: "string option"
  BESTBUY_API_KEY :: "string option"

text \<open>
  The environment of one request: the clock when the handler starts, how the two
  Redis calls behave, and how the two retailer APIs answer. The Redis client is taken
  to settle every call, by a value or by throwing; the handler sets no deadline on it.
\<close>

record env =
  now :: nat
  redis_get_ms :: nat
  redis_get_throws :: bool
  redis_set_throws :: bool
  amazon_api :: "amazon_json http_response promise"
  bestbuy_api :: "bestbuy_json http_response promise"

text \<open>
  The stores: \<open>cache\<close> is the module-level \<open>Map\<close> (L1); \<open>redis\<close> is what the shared store
  holds, live entries only, since Redis drops an entry itself when its TTL is over.
\<close>

record world =
  cache :: "string \<rightharpoonup> CacheEntry"
  redis :: "string \<rightharpoonup> ProviderResult"

text \<open>The three query parameters as \<open>searchParams.get\<close> returns them.\<close>

record request =
  param_q :: "string option"
  param_page :: "code_unit list option"
  param_provider :: "string option"

text \<open>Calls that leave the handler, in the order they are issued.\<close>

datatype event =
    CacheGet string
  | CacheSet string CacheEntry
  | RedisGet string
  | RedisSet string ProviderResult nat
  | ProviderCall provider_tag string js_number
  | HttpFetch provider_tag string js_number

datatype json_body =
    ErrorBody string
  | SearchBody "UnifiedResult list" bool bool string

record http_reply =
  status :: nat
  body :: json_body

text \<open>
  One run of the handler: the reply (\<open>None\<close> when the handler never answers), the
  stores afterwards, and the calls made.
\<close>

record run =
  reply :: "http_reply option"
  after :: world
  trace :: "event list"

section \<open>Provider adapters\<close>

subsection \<open>Amazon through Rainforest (lines 63-108)\<close>

definition amazon_result :: "amazon_item \<Rightarrow> UnifiedResult" where
  "amazon_result item =
     \<lparr>source = Amazon, title = item_title item, price = item_price_raw item,
      link = item_link item, thumbnail = item_image item,
      rating = item_rating item, reviews = item_reviews item\<rparr>"

definition amazon_outcome :: "amazon_json \<Rightarrow> ProviderResult" where
  "amazon_outcome json =
     (let rs = map amazon_result (case search_results json of None \<Rightarrow> [] | Some xs \<Rightarrow> xs)
      in \<lparr>results = rs,
          hasMore = (case pagination json of
                       Some (current_page, total_pages) \<Rightarrow> current_page < total_pages
                     | None \<Rightarrow> rs \<noteq> [])\<rparr>)"

definition fetchAmazon ::
  "config \<Rightarrow> env \<Rightarrow> string \<Rightarrow> js_number \<Rightarrow> ProviderResult promise \<times> event list" where
  "fetchAmazon cfg e q page =
     (if \<not> truthy (RAINFOREST_API_KEY cfg) then (Settles 0 (Inr empty_outcome), [])
      else
        ((case amazon_api e of
            Pending \<Rightarrow> Pending
          | Settles d (Inl err) \<Rightarrow> Settles d (Inr empty_outcome)
          | Settles d (Inr res) \<Rightarrow>
              if \<not> ok res then Settles d (Inr empty_outcome)
              else (case res of
                      HttpResponse _ None \<Rightarrow> Settles d (Inr empty_outcome)
                    | HttpResponse _ (Some json) \<Rightarrow> Settles d (Inr (amazon_outcome json)))),
         [HttpFetch Amazon q page]))"

subsection \<open>Best Buy (lines 111-166)\<close>

definition bestbuy_result :: "bestbuy_product \<Rightarrow> UnifiedResult" where
  "bestbuy_result p =
     \<lparr>source = BestBuy, title = p_name p,
      price = (case p_salePrice p of
                 Some sale \<Rightarrow> Some (''$'' @ toFixed2 sale)
               | None \<Rightarrow> (case p_regularPrice p of
                            Some regular \<Rightarrow> Some (''$'' @ toFixed2 regular)
                          | None \<Rightarrow> None)),
      link = p_url p, thumbnail = p_image p,
      rating = p_customerReviewAverage p, reviews = p_customerReviewCount p\<rparr>"

text \<open>
  \<open>currentPage < totalPages\<close> when \<open>currentPage\<close> has fallen back to \<open>page\<close>: the
  comparison of the page with a decoded JSON number.
\<close>

definition page_less :: "js_number \<Rightarrow> rat \<Rightarrow> bool" where
  "page_less page t =
     (case page of
        Finite i \<Rightarrow> of_int i < t
      | PosInfinity \<Rightarrow> False
      | NegInfinity \<Rightarrow> True)"

definition bestbuy_outcome :: "bestbuy_json \<Rightarrow> js_number \<Rightarrow> ProviderResult" where
  "bestbuy_outcome json page =
     (let rs = map bestbuy_result (case products json of None \<Rightarrow> [] | Some xs \<Rightarrow> xs)
      in \<lparr>results = rs,
          hasMore = (case totalPages json of
                       Some pages \<Rightarrow>
                         (case currentPage json of
                            Some current \<Rightarrow> current < pages
                          | None \<Rightarrow> page_less page pages)
                     | None \<Rightarrow> rs \<noteq> [])\<rparr>)"

definition fetchBestBuy ::
  "config \<Rightarrow> env \<Rightarrow> string \<Rightarrow> js_number \<Rightarrow> ProviderResult promise \<times> event list" where
  "fetchBestBuy cfg e q page =
     (if \<not> truthy (BESTBUY_API_KEY cfg) then (Settles 0 (Inr empty_outcome), [])
      else
        ((case bestbuy_api e of
            Pending \<Rightarrow> Pending
          | Settles d (Inl err) \<Rightarrow> Settles d (Inr empty_outcome)
          | Settles d (Inr res) \<Rightarrow>
              if \<not> ok res then Settles d (Inr empty_outcome)
              else (case res of
                      HttpResponse _ None \<Rightarrow> Settles d (Inr empty_outcome)
                    | HttpResponse _ (Some json) \<Rightarrow> Settles d (Inr (bestbuy_outcome json page)))),
         [HttpFetch BestBuy q page]))"

section \<open>The handler \<open>GET\<close> (lines 169-276)\<close>

text \<open>\<open>NextResponse.json(body, { status })\<close>; the status is 200 when none is given.\<close>

definition json_reply :: "json_body \<Rightarrow> nat \<Rightarrow> http_reply" where
  "json_reply b st = \<lparr>status = st, body = b\<rparr>"

text \<open>Line 173: \<open>(searchParams.get("provider") || "amazon").toLowerCase()\<close>.\<close>

definition providerParam_of :: "request \<Rightarrow> string" where
  "providerParam_of req =
     toLowerCase (case param_provider req of
                    None \<Rightarrow> ''amazon''
                  | Some p \<Rightarrow> if p = [] then ''amazon'' else p)"

text \<open>Line 179: \<open>pageParam ? parseInt(pageParam, 10) || 1 : 1\<close>.\<close>

definition page_of :: "request \<Rightarrow> js_number" where
  "page_of req =
     (case param_page req of
        None \<Rightarrow> Finite 1
      | Some pageParam \<Rightarrow>
          if pageParam = [] then Finite 1
          else (case parseInt pageParam of
                  None \<Rightarrow> Finite 1
                | Some n \<Rightarrow> if n = Finite 0 then Finite 1 else n))"

text \<open>
  Lines 230-233 and 239-242: a provider call under the 4000 ms guard, with the
  \<open>catch\<close> handler that answers the empty outcome.
\<close>

definition guarded :: "ProviderResult promise \<Rightarrow> ProviderResult promise" where
  "guarded p = promise_catch (withTimeout p 4000) (\<lambda>err. \<lparr>results = [], hasMore = False\<rparr>)"

text \<open>Lines 249-254: \<open>flatMap\<close>, \<open>slice(0, 30)\<close> and \<open>some\<close>.\<close>

definition merge_payload :: "ProviderResult list \<Rightarrow> ProviderResult" where
  "merge_payload providerResults =
     (let allResults = concat (map results providerResults);
          allResults = take 30 allResults
      in \<lparr>results = allResults, hasMore = list_ex hasMore providerResults\<rparr>)"

text \<open>Lines 176-177: which adapters the provider scope selects.\<close>

definition useAmazon :: "string \<Rightarrow> bool" where
  "useAmazon providerParam \<longleftrightarrow> providerParam = ''amazon'' \<or> providerParam = ''all''"

definition useBestBuy :: "string \<Rightarrow> bool" where
  "useBestBuy providerParam \<longleftrightarrow> providerParam = ''bestbuy'' \<or> providerParam = ''all''"

text \<open>
  Lines 226-244: the array \<open>providerPromises\<close>, Amazon first, and the calls that
  filling it makes.
\<close>

definition providerPromises ::
  "config \<Rightarrow> env \<Rightarrow> string \<Rightarrow> js_number \<Rightarrow> string \<Rightarrow> ProviderResult promise list" where
  "providerPromises cfg e q page providerParam =
     (if useAmazon providerParam then [guarded (fst (fetchAmazon cfg e q page))] else []) @
     (if useBestBuy providerParam then [guarded (fst (fetchBestBuy cfg e q page))] else [])"

definition provider_calls ::
  "config \<Rightarrow> env \<Rightarrow> string \<Rightarrow> js_number \<Rightarrow> string \<Rightarrow> event list" where
  "provider_calls cfg e q page providerParam =
     (if useAmazon providerParam
      then ProviderCall Amazon q page # snd (fetchAmazon cfg e q page) else []) @
     (if useBestBuy providerParam
      then ProviderCall BestBuy q page # snd (fetchBestBuy cfg e q page) else [])"

text \<open>
  Lines 246-275, the \<open>try\<close> block of the live fetch. \<open>t\<close> is the clock when the provider
  calls are issued and \<open>tr\<close> the calls made before them.
\<close>

definition live_fetch ::
  "config \<Rightarrow> env \<Rightarrow> world \<Rightarrow> string \<Rightarrow> js_number \<Rightarrow> string \<Rightarrow> nat \<Rightarrow> event list \<Rightarrow> run" where
  "live_fetch cfg e w q page providerParam t tr =
     (let cacheKey = makeCacheKey q page providerParam;
          redisKey = makeRedisKey q page providerParam;
          tr1 = tr @ provider_calls cfg e q page providerParam
      in case Promise_all (providerPromises cfg e q page providerParam) of
           Pending \<Rightarrow> \<lparr>reply = None, after = w, trace = tr1\<rparr>
         | Settles d (Inl err) \<Rightarrow>
             \<lparr>reply = Some (json_reply (ErrorBody ''Search failed'') 500),
              after = w, trace = tr1\<rparr>
         | Settles d (Inr providerResults) \<Rightarrow>
             (let payload = merge_payload providerResults;
                  entry = \<lparr>expires = t + d + CACHE_TTL_MS, data = payload\<rparr>;
                  w1 = w\<lparr>cache := (cache w)(cacheKey \<mapsto> entry)\<rparr>;
                  w2 = (if results payload \<noteq> [] \<and> \<not> redis_set_throws e
                        then w1\<lparr>redis := (redis w1)(redisKey \<mapsto> payload)\<rparr>
                        else w1);
                  tr2 = tr1 @ [CacheSet cacheKey entry] @
                        (if results payload \<noteq> []
                         then [RedisSet redisKey payload REDIS_TTL_SECONDS]
                         else [])
              in \<lparr>reply = Some (json_reply
                               (SearchBody (results payload) (hasMore payload) False ''LIVE'')
                               200),
                  after = w2, trace = tr2\<rparr>))"

definition GET :: "config \<Rightarrow> env \<Rightarrow> request \<Rightarrow> world \<Rightarrow> run" where
  "GET cfg e req w =
     (let providerParam = providerParam_of req;
          page = page_of req
      in case param_q req of
           None \<Rightarrow>
             \<lparr>reply = Some (json_reply (ErrorBody ''Missing search term'') 400),
              after = w, trace = []\<rparr>
         | Some q \<Rightarrow>
             if q = [] then
               \<lparr>reply = Some (json_reply (ErrorBody ''Missing search term'') 400),
                after = w, trace = []\<rparr>
             else if \<not> truthy (RAINFOREST_API_KEY cfg) \<and> \<not> truthy (BESTBUY_API_KEY cfg) then
               \<lparr>reply = Some (json_reply
                                (ErrorBody ''Server is not configured with any provider API keys'')
                                500),
                after = w, trace = []\<rparr>
             else
               (let cacheKey = makeCacheKey q page providerParam;
                    cached = (case cache w cacheKey of
                                None \<Rightarrow> None
                              | Some c \<Rightarrow> if expires c > now e then Some c else None)
                in case cached of
                     Some c \<Rightarrow>
                       \<lparr>reply = Some (json_reply
                                        (SearchBody (results (data c)) (hasMore (data c)) True ''L1'')
                                        200),
                        after = w, trace = [CacheGet cacheKey]\<rparr>
                   | None \<Rightarrow>
                       (let redisKey = makeRedisKey q page providerParam;
                            redisCached = (if redis_get_throws e then None else redis w redisKey);
                            t = now e + redis_get_ms e
                        in case redisCached of
                             Some rc \<Rightarrow>
                               (let entry = \<lparr>expires = t + CACHE_TTL_MS, data = rc\<rparr>
                                in \<lparr>reply = Some (json_reply
                                                   (SearchBody (results rc) (hasMore rc) True ''REDIS'')
                                                   200),
                                    after = w\<lparr>cache := (cache w)(cacheKey \<mapsto> entry)\<rparr>,
                                    trace = [CacheGet cacheKey, RedisGet redisKey,
                                             CacheSet cacheKey entry]\<rparr>)
                           | None \<Rightarrow>
                               live_fetch cfg e w q page providerParam t
                                 [CacheGet cacheKey, RedisGet redisKey])))"

section \<open>Stages of a request\<close>

text \<open>
  The request reaches the live fetch: the query is non-empty, some credential is
  configured, L1 holds no unexpired entry for the key, and the Redis read throws or
  finds nothing.
\<close>

definition reaches_live_fetch :: "config \<Rightarrow> env \<Rightarrow> request \<Rightarrow> world \<Rightarrow> string \<Rightarrow> bool" where
  "reaches_live_fetch cfg e req w q \<longleftrightarrow>
     param_q req = Some q \<and> q \<noteq> [] \<and>
     (truthy (RAINFOREST_API_KEY cfg) \<or> truthy (BESTBUY_API_KEY cfg)) \<and>
     (case cache w (makeCacheKey q (page_of req) (providerParam_of req)) of
        None \<Rightarrow> True
      | Some c \<Rightarrow> expires c \<le> now e) \<and>
     (redis_get_throws e \<or> redis w (makeRedisKey q (page_of req) (providerParam_of req)) = None)"

text \<open>
  The request is an L2 hit with payload \<open>rc\<close>: as above up to the L1 miss, and the
  Redis read succeeds and finds \<open>rc\<close>.
\<close>

definition l2_hit ::
  "config \<Rightarrow> env \<Rightarrow> request \<Rightarrow> world \<Rightarrow> string \<Rightarrow> ProviderResult \<Rightarrow> bool" where
  "l2_hit cfg e req w q rc \<longleftrightarrow>
     param_q req = Some q \<and> q \<noteq> [] \<and>
     (truthy (RAINFOREST_API_KEY cfg) \<or> truthy (BESTBUY_API_KEY cfg)) \<and>
     (case cache w (makeCacheKey q (page_of req) (providerParam_of req)) of
        None \<Rightarrow> True
      | Some c \<Rightarrow> expires c \<le> now e) \<and>
     \<not> redis_get_throws e \<and>
     redis w (makeRedisKey q (page_of req) (providerParam_of req)) = Some rc"

text \<open>
  A provider's call fails, in the words of the spec: it times out (never settles, or
  not before 4000 ms), the network fails, or the status is not a success.
\<close>

definition call_fails :: "'j http_response promise \<Rightarrow> bool" where
  "call_fails api =
     (case api of
        Pending \<Rightarrow> True
      | Settles d (Inl err) \<Rightarrow> True
      | Settles d (Inr res) \<Rightarrow> 4000 \<le> d \<or> \<not> ok res)"

section \<open>The default provider as the spec words it\<close>

text \<open>
  Section 6 of the spec gives the default of \<open>provider\<close> as the first configured
  provider's tag. This definition follows those words, the providers taken in call
  order; it is compared with \<open>providerParam_of\<close> below.
\<close>

definition first_configured_tag :: "config \<Rightarrow> string option" where
  "first_configured_tag cfg =
     (if truthy (RAINFOREST_API_KEY cfg) then Some ''amazon''
      else if truthy (BESTBUY_API_KEY cfg) then Some ''bestbuy''
      else None)"

section \<open>Sample configurations, environments, stores and requests\<close>

definition cfg_both :: config where
  "cfg_both = \<lparr>RAINFOREST_API_KEY = Some ''rf-key'', BESTBUY_API_KEY = Some ''bb-key''\<rparr>"

definition cfg_bestbuy_only :: config where
  "cfg_bestbuy_only = \<lparr>RAINFOREST_API_KEY = None, BESTBUY_API_KEY = Some ''bb-key''\<rparr>"

definition item_a :: amazon_item where
  "item_a = \<lparr>item_title = ''AirPods Pro 2'', item_price_raw = Some ''$189.99'',
             item_link = ''https://www.amazon.com/dp/B0D1XD1ZV3'', item_image = None,
             item_rating = Some (47 / 10), item_reviews = Some 1200\<rparr>"

definition product_b :: bestbuy_product where
  "product_b = \<lparr>p_name = ''Apple AirPods Pro'', p_salePrice = Some (1999 / 10),
                p_regularPrice = Some (2499 / 10),
                p_url = ''https://www.bestbuy.com/site/6447382.p'', p_image = None,
                p_customerReviewAverage = None, p_customerReviewCount = Some 35\<rparr>"

definition env_healthy :: env where
  "env_healthy =
     \<lparr>now = 1000, redis_get_ms = 5, redis_get_throws = False, redis_set_throws = False,
      amazon_api = Settles 300 (Inr (HttpResponse 200
                     (Some \<lparr>search_results = Some [item_a], pagination = Some (1, 3)\<rparr>))),
      bestbuy_api = Settles 200 (Inr (HttpResponse 200
                     (Some \<lparr>products = Some [product_b], totalPages = Some 1,
                            currentPage = Some 1\<rparr>)))\<rparr>"

definition env_amazon_hangs :: env where
  "env_amazon_hangs = env_healthy\<lparr>amazon_api := Pending\<rparr>"

definition env_bestbuy_503 :: env where
  "env_bestbuy_503 = env_healthy\<lparr>bestbuy_api := Settles 120 (Inr (HttpResponse 503 None))\<rparr>"

definition env_amazon_fills :: env where
  "env_amazon_fills =
     env_healthy
       \<lparr>amazon_api := Settles 300 (Inr (HttpResponse 200
                          (Some \<lparr>search_results = Some (replicate 30 item_a),
                                 pagination = Some (3, 3)\<rparr>))),
        bestbuy_api := Settles 200 (Inr (HttpResponse 200
                          (Some \<lparr>products = Some [product_b], totalPages = Some 5,
                                 currentPage = Some 1\<rparr>)))\<rparr>"

definition world_cold :: world where
  "world_cold = \<lparr>cache = Map.empty, redis = Map.empty\<rparr>"

definition req_all :: request where
  "req_all = \<lparr>param_q = Some ''AirPods Pro'', param_page = None, param_provider = Some ''all''\<rparr>"

definition req_blank :: request where
  "req_blank = \<lparr>param_q = Some '' '', param_page = None, param_provider = None\<rparr>"

definition req_absent :: request where
  "req_absent = \<lparr>param_q = None, param_page = Some (code_units ''2''), param_provider = Some ''all''\<rparr>"

definition req_negative_page :: request where
  "req_negative_page =
     \<lparr>param_q = Some ''AirPods Pro'', param_page = Some (code_units ''-5''), param_provider = None\<rparr>"

definition req_page_zero :: request where
  "req_page_zero =
     \<lparr>param_q = Some ''AirPods Pro'', param_page = Some (code_units ''0''), param_provider = None\<rparr>"

definition req_page_word :: request where
  "req_page_word =
     \<lparr>param_q = Some ''AirPods Pro'', param_page = Some (code_units ''two''), param_provider = None\<rparr>"

definition req_page_huge :: request where
  "req_page_huge =
     \<lparr>param_q = Some ''AirPods Pro'', param_page = Some (0x31 # replicate 309 0x30),
      param_provider = None\<rparr>"

definition req_page_nbsp :: request where
  "req_page_nbsp =
     \<lparr>param_q = Some ''AirPods Pro'', param_page = Some [0xA0, 0x35], param_provider = None\<rparr>"

definition req_default :: request where
  "req_default = \<lparr>param_q = Some ''AirPods Pro'', param_page = None, param_provider = None\<rparr>"

definition req_empty_provider :: request where
  "req_empty_provider =
     \<lparr>param_q = Some ''AirPods Pro'', param_page = None, param_provider = Some []\<rparr>"

definition req_walmart :: request where
  "req_walmart =
     \<lparr>param_q = Some ''AirPods Pro'', param_page = None, param_provider = Some ''Walmart''\<rparr>"

definition payload_b :: ProviderResult where
  "payload_b = \<lparr>results = [bestbuy_result product_b], hasMore = True\<rparr>"

definition world_l2 :: world where
  "world_l2 =
     \<lparr>cache = Map.empty,
      redis = [''dealscope:search:v1:airpods pro::1::all'' \<mapsto> payload_b]\<rparr>"

definition env_later :: env where
  "env_later = env_healthy\<lparr>now := 30000\<rparr>"

lemmas sample_defs = cfg_both_def cfg_bestbuy_only_def env_healthy_def env_amazon_hangs_def
  env_bestbuy_503_def env_amazon_fills_def world_cold_def req_all_def req_blank_def req_absent_def
  req_page_zero_def req_page_word_def req_page_huge_def req_page_nbsp_def
  req_negative_page_def req_default_def req_empty_provider_def req_walmart_def world_l2_def
  env_later_def

lemmas eval_defs = GET_def live_fetch_def providerPromises_def provider_calls_def
  merge_payload_def guarded_def withTimeout_def promise_catch_def fetchAmazon_def fetchBestBuy_def
  amazon_outcome_def bestbuy_outcome_def empty_outcome_def ok_def truthy_def json_reply_def
  useAmazon_def useBestBuy_def providerParam_of_def page_of_def makeCacheKey_def makeRedisKey_def
  toLowerCase_def toLowerChar_def number_to_string_def double_to_string_def shortest_decimal_def
  decimal_candidates_def closest_def round_double_def show_nat.simps Let_def
  CACHE_TTL_MS_def REDIS_TTL_SECONDS_def reaches_live_fetch_def l2_hit_def call_fails_def

section \<open>Basic facts\<close>

lemma guarded_fulfils: "\<exists>d r. guarded p = Settles d (Inr r)"
proof (cases p)
  case (Settles d x)
  then show ?thesis
    by (cases x) (simp_all add: guarded_def withTimeout_def promise_catch_def)
next
  case Pending
  then show ?thesis
    by (simp add: guarded_def withTimeout_def promise_catch_def)
qed

lemma providerPromises_all:
  assumes "guarded (fst (fetchAmazon cfg e q page)) = Settles da (Inr am)"
    and "guarded (fst (fetchBestBuy cfg e q page)) = Settles db (Inr bb)"
  shows "Promise_all (providerPromises cfg e q page pp) =
           Settles (max (if useAmazon pp then da else 0) (if useBestBuy pp then db else 0))
             (Inr ((if useAmazon pp then [am] else []) @ (if useBestBuy pp then [bb] else [])))"
  using assms by (simp add: providerPromises_def)

lemma providerPromises_fulfil:
  "\<exists>d ps. Promise_all (providerPromises cfg e q page pp) = Settles d (Inr ps)"
proof -
  obtain da am where a: "guarded (fst (fetchAmazon cfg e q page)) = Settles da (Inr am)"
    using guarded_fulfils by blast
  obtain db bb where b: "guarded (fst (fetchBestBuy cfg e q page)) = Settles db (Inr bb)"
    using guarded_fulfils by blast
  show ?thesis
    using providerPromises_all [OF a b] by blast
qed

lemma live_fetch_run:
  assumes "Promise_all (providerPromises cfg e q page pp) = Settles d (Inr ps)"
  shows "live_fetch cfg e w q page pp t tr =
           \<lparr>reply = Some (json_reply
                            (SearchBody (results (merge_payload ps)) (hasMore (merge_payload ps))
                               False ''LIVE'')
                            200),
            after =
              (if results (merge_payload ps) \<noteq> [] \<and> \<not> redis_set_throws e
               then \<lparr>cache = (cache w)(makeCacheKey q page pp \<mapsto>
                               \<lparr>expires = t + d + CACHE_TTL_MS, data = merge_payload ps\<rparr>),
                     redis = (redis w)(makeRedisKey q page pp \<mapsto> merge_payload ps)\<rparr>
               else \<lparr>cache = (cache w)(makeCacheKey q page pp \<mapsto>
                               \<lparr>expires = t + d + CACHE_TTL_MS, data = merge_payload ps\<rparr>),
                     redis = redis w\<rparr>),
            trace = tr @ provider_calls cfg e q page pp @
                    [CacheSet (makeCacheKey q page pp)
                       \<lparr>expires = t + d + CACHE_TTL_MS, data = merge_payload ps\<rparr>] @
                    (if results (merge_payload ps) \<noteq> []
                     then [RedisSet (makeRedisKey q page pp) (merge_payload ps) REDIS_TTL_SECONDS]
                     else [])\<rparr>"
  using assms by (simp add: live_fetch_def Let_def)

lemma GET_reaches_live:
  assumes "reaches_live_fetch cfg e req w q"
  shows "GET cfg e req w =
           live_fetch cfg e w q (page_of req) (providerParam_of req) (now e + redis_get_ms e)
             [CacheGet (makeCacheKey q (page_of req) (providerParam_of req)),
              RedisGet (makeRedisKey q (page_of req) (providerParam_of req))]"
  using assms
  by (auto simp add: GET_def reaches_live_fetch_def Let_def split: option.splits)

lemma guarded_amazon_fails:
  assumes "call_fails (amazon_api e)"
  shows "\<exists>d. guarded (fst (fetchAmazon cfg e q page)) = Settles d (Inr \<lparr>results = [], hasMore = False\<rparr>)"
proof (cases "amazon_api e")
  case (Settles d x)
  show ?thesis
  proof (cases x)
    case (Inl err)
    with Settles show ?thesis
      by (simp add: fetchAmazon_def guarded_def withTimeout_def promise_catch_def empty_outcome_def)
  next
    case (Inr res)
    with Settles assms show ?thesis
      by (cases res)
        (auto simp add: fetchAmazon_def guarded_def withTimeout_def promise_catch_def
          empty_outcome_def call_fails_def split: option.splits)
  qed
next
  case Pending
  then show ?thesis
    by (simp add: fetchAmazon_def guarded_def withTimeout_def promise_catch_def empty_outcome_def)
qed

lemma guarded_bestbuy_fails:
  assumes "call_fails (bestbuy_api e)"
  shows "\<exists>d. guarded (fst (fetchBestBuy cfg e q page)) = Settles d (Inr \<lparr>results = [], hasMore = False\<rparr>)"
proof (cases "bestbuy_api e")
  case (Settles d x)
  show ?thesis
  proof (cases x)
    case (Inl err)
    with Settles show ?thesis
      by (simp add: fetchBestBuy_def guarded_def withTimeout_def promise_catch_def empty_outcome_def)
  next
    case (Inr res)
    with Settles assms show ?thesis
      by (cases res)
        (auto simp add: fetchBestBuy_def guarded_def withTimeout_def promise_catch_def
          empty_outcome_def call_fails_def split: option.splits)
  qed
next
  case Pending
  then show ?thesis
    by (simp add: fetchBestBuy_def guarded_def withTimeout_def promise_catch_def empty_outcome_def)
qed

lemma GET_live_reply:
  assumes live: "reaches_live_fetch cfg e req w q"
    and a: "guarded (fst (fetchAmazon cfg e q (page_of req))) = Settles da (Inr am)"
    and b: "guarded (fst (fetchBestBuy cfg e q (page_of req))) = Settles db (Inr bb)"
  shows "reply (GET cfg e req w) =
           Some (json_reply
                   (SearchBody
                      (take 30 ((if useAmazon (providerParam_of req) then results am else []) @
                                (if useBestBuy (providerParam_of req) then results bb else [])))
                      ((useAmazon (providerParam_of req) \<and> hasMore am) \<or>
                       (useBestBuy (providerParam_of req) \<and> hasMore bb))
                      False ''LIVE'')
                   200)"
  by (simp add: GET_reaches_live [OF live]
      live_fetch_run [OF providerPromises_all [OF a b]] merge_payload_def)

section \<open>Provider isolation\<close>

text \<open>
  Claim C1. For every request that reaches the live fetch, the endpoint answers with
  HTTP 200. If the Amazon call fails (it never settles or takes 4000 ms or more, the
  network fails, or the status is not a success), the guarded call is fulfilled with the
  empty outcome \<open>{ results: [], hasMore: false }\<close>, and under \<open>provider=all\<close> the reply
  carries the Best Buy outcome: its results, cut to 30, and its \<open>hasMore\<close>. The same
  holds with the two providers exchanged.
\<close>

theorem provider_isolation:
  assumes live: "reaches_live_fetch cfg e req w q"
  shows "(\<exists>b. reply (GET cfg e req w) = Some \<lparr>status = 200, body = b\<rparr>) \<and>
         (call_fails (amazon_api e) \<longrightarrow>
            (\<exists>d. guarded (fst (fetchAmazon cfg e q (page_of req))) =
                    Settles d (Inr \<lparr>results = [], hasMore = False\<rparr>)) \<and>
            (providerParam_of req = ''all'' \<longrightarrow>
               (\<exists>d bb. guarded (fst (fetchBestBuy cfg e q (page_of req))) = Settles d (Inr bb) \<and>
                  reply (GET cfg e req w) =
                    Some (json_reply
                            (SearchBody (take 30 (results bb)) (hasMore bb) False ''LIVE'') 200)))) \<and>
         (call_fails (bestbuy_api e) \<longrightarrow>
            (\<exists>d. guarded (fst (fetchBestBuy cfg e q (page_of req))) =
                    Settles d (Inr \<lparr>results = [], hasMore = False\<rparr>)) \<and>
            (providerParam_of req = ''all'' \<longrightarrow>
               (\<exists>d am. guarded (fst (fetchAmazon cfg e q (page_of req))) = Settles d (Inr am) \<and>
                  reply (GET cfg e req w) =
                    Some (json_reply
                            (SearchBody (take 30 (results am)) (hasMore am) False ''LIVE'') 200))))"
proof -
  obtain da am where a: "guarded (fst (fetchAmazon cfg e q (page_of req))) = Settles da (Inr am)"
    using guarded_fulfils by blast
  obtain db bb where b: "guarded (fst (fetchBestBuy cfg e q (page_of req))) = Settles db (Inr bb)"
    using guarded_fulfils by blast
  note r = GET_live_reply [OF live a b]
  have ok200: "\<exists>b. reply (GET cfg e req w) = Some \<lparr>status = 200, body = b\<rparr>"
    by (simp add: r json_reply_def)
  have amazon: "(\<exists>d. guarded (fst (fetchAmazon cfg e q (page_of req))) =
                    Settles d (Inr \<lparr>results = [], hasMore = False\<rparr>)) \<and>
            (providerParam_of req = ''all'' \<longrightarrow>
               (\<exists>d bb. guarded (fst (fetchBestBuy cfg e q (page_of req))) = Settles d (Inr bb) \<and>
                  reply (GET cfg e req w) =
                    Some (json_reply
                            (SearchBody (take 30 (results bb)) (hasMore bb) False ''LIVE'') 200)))"
    if f: "call_fails (amazon_api e)"
  proof -
    from guarded_amazon_fails [OF f] obtain d where
      d: "guarded (fst (fetchAmazon cfg e q (page_of req))) =
            Settles d (Inr \<lparr>results = [], hasMore = False\<rparr>)"
      by blast
    with a have "am = \<lparr>results = [], hasMore = False\<rparr>" by simp
    with r b d show ?thesis
      by (auto simp add: useAmazon_def useBestBuy_def)
  qed
  have bestbuy: "(\<exists>d. guarded (fst (fetchBestBuy cfg e q (page_of req))) =
                    Settles d (Inr \<lparr>results = [], hasMore = False\<rparr>)) \<and>
            (providerParam_of req = ''all'' \<longrightarrow>
               (\<exists>d am. guarded (fst (fetchAmazon cfg e q (page_of req))) = Settles d (Inr am) \<and>
                  reply (GET cfg e req w) =
                    Some (json_reply
                            (SearchBody (take 30 (results am)) (hasMore am) False ''LIVE'') 200)))"
    if f: "call_fails (bestbuy_api e)"
  proof -
    from guarded_bestbuy_fails [OF f] obtain d where
      d: "guarded (fst (fetchBestBuy cfg e q (page_of req))) =
            Settles d (Inr \<lparr>results = [], hasMore = False\<rparr>)"
      by blast
    with b have "bb = \<lparr>results = [], hasMore = False\<rparr>" by simp
    with r a d show ?thesis
      by (auto simp add: useAmazon_def useBestBuy_def)
  qed
  from ok200 amazon bestbuy show ?thesis by blast
qed

theorem provider_isolation_witness:
  "reaches_live_fetch cfg_both env_amazon_hangs req_all world_cold ''AirPods Pro'' \<and>
   call_fails (amazon_api env_amazon_hangs) \<and>
   providerParam_of req_all = ''all'' \<and>
   reply (GET cfg_both env_amazon_hangs req_all world_cold) =
     Some (json_reply (SearchBody [bestbuy_result product_b] False False ''LIVE'') 200) \<and>
   reaches_live_fetch cfg_both env_bestbuy_503 req_all world_cold ''AirPods Pro'' \<and>
   call_fails (bestbuy_api env_bestbuy_503) \<and>
   reply (GET cfg_both env_bestbuy_503 req_all world_cold) =
     Some (json_reply (SearchBody [amazon_result item_a] True False ''LIVE'') 200)"
  using provider_isolation [of cfg_both env_amazon_hangs req_all world_cold "''AirPods Pro''"]
    provider_isolation [of cfg_both env_bestbuy_503 req_all world_cold "''AirPods Pro''"]
  by (simp add: sample_defs eval_defs)

section \<open>The merge: cap and \<open>hasMore\<close>\<close>

text \<open>
  Claim C2. For every request that reaches the live fetch, the results of the reply are
  the results of the active providers' outcomes, Amazon's before Best Buy's, joined and
  then cut to the first 30; so there are at most 30 of them.
\<close>

theorem cap_invariant:
  assumes live: "reaches_live_fetch cfg e req w q"
  shows "\<exists>da am db bb hm.
           guarded (fst (fetchAmazon cfg e q (page_of req))) = Settles da (Inr am) \<and>
           guarded (fst (fetchBestBuy cfg e q (page_of req))) = Settles db (Inr bb) \<and>
           reply (GET cfg e req w) =
             Some (json_reply
                     (SearchBody
                        (take 30 ((if useAmazon (providerParam_of req) then results am else []) @
                                  (if useBestBuy (providerParam_of req) then results bb else [])))
                        hm False ''LIVE'')
                     200) \<and>
           length (take 30 ((if useAmazon (providerParam_of req) then results am else []) @
                            (if useBestBuy (providerParam_of req) then results bb else []))) \<le> 30"
proof -
  obtain da am where a: "guarded (fst (fetchAmazon cfg e q (page_of req))) = Settles da (Inr am)"
    using guarded_fulfils by blast
  obtain db bb where b: "guarded (fst (fetchBestBuy cfg e q (page_of req))) = Settles db (Inr bb)"
    using guarded_fulfils by blast
  from GET_live_reply [OF live a b] a b show ?thesis
    by (intro exI conjI) (assumption | simp)+
qed

theorem cap_invariant_witness:
  "reaches_live_fetch cfg_both env_amazon_fills req_all world_cold ''AirPods Pro'' \<and>
   reply (GET cfg_both env_amazon_fills req_all world_cold) =
     Some (json_reply (SearchBody (replicate 30 (amazon_result item_a)) True False ''LIVE'') 200) \<and>
   length (replicate 30 (amazon_result item_a)) \<le> 30"
  using cap_invariant [of cfg_both env_amazon_fills req_all world_cold "''AirPods Pro''"]
  by (simp add: sample_defs eval_defs)

text \<open>
  Claim C7. For every request that reaches the live fetch, the \<open>hasMore\<close> of the reply
  is true exactly when some outcome in the fulfilled \<open>providerPromises\<close> has
  \<open>hasMore\<close> true, whether or not that provider's results are among the 30 kept.
\<close>

theorem hasMore_any_provider:
  assumes live: "reaches_live_fetch cfg e req w q"
  shows "\<exists>d ps rs.
           Promise_all (providerPromises cfg e q (page_of req) (providerParam_of req)) =
             Settles d (Inr ps) \<and>
           reply (GET cfg e req w) =
             Some (json_reply (SearchBody rs (\<exists>p \<in> set ps. hasMore p) False ''LIVE'') 200)"
proof -
  obtain d ps where
    all: "Promise_all (providerPromises cfg e q (page_of req) (providerParam_of req)) =
            Settles d (Inr ps)"
    using providerPromises_fulfil by blast
  have "reply (GET cfg e req w) =
          Some (json_reply
                  (SearchBody (results (merge_payload ps)) (\<exists>p \<in> set ps. hasMore p) False ''LIVE'')
                  200)"
    by (simp add: GET_reaches_live [OF live] live_fetch_run [OF all] merge_payload_def list_ex_iff)
  with all show ?thesis by blast
qed

theorem hasMore_any_provider_witness:
  "reaches_live_fetch cfg_both env_amazon_fills req_all world_cold ''AirPods Pro'' \<and>
   Promise_all (providerPromises cfg_both env_amazon_fills ''AirPods Pro'' (Finite 1) ''all'') =
     Settles 300 (Inr [\<lparr>results = replicate 30 (amazon_result item_a), hasMore = False\<rparr>,
                       \<lparr>results = [bestbuy_result product_b], hasMore = True\<rparr>]) \<and>
   reply (GET cfg_both env_amazon_fills req_all world_cold) =
     Some (json_reply (SearchBody (replicate 30 (amazon_result item_a)) True False ''LIVE'') 200)"
  using hasMore_any_provider [of cfg_both env_amazon_fills req_all world_cold "''AirPods Pro''"]
  by (simp add: sample_defs eval_defs)

section \<open>Validation of the query\<close>

text \<open>
  Claim C3, as stated, fails for a query of white space only: the handler tests \<open>!q\<close>
  and never trims, so \<open>q\<close> equal to one space is looked up in both caches and sent to
  Amazon, and the reply is HTTP 200.
\<close>

theorem blank_query_counterexample:
  "reply (GET cfg_both env_healthy req_blank world_cold) =
     Some (json_reply (SearchBody [amazon_result item_a] True False ''LIVE'') 200) \<and>
   trace (GET cfg_both env_healthy req_blank world_cold) =
     [CacheGet '' ::1::amazon'', RedisGet ''dealscope:search:v1: ::1::amazon'',
      ProviderCall Amazon '' '' (Finite 1), HttpFetch Amazon '' '' (Finite 1),
      CacheSet '' ::1::amazon''
        \<lparr>expires = 61305, data = \<lparr>results = [amazon_result item_a], hasMore = True\<rparr>\<rparr>,
      RedisSet ''dealscope:search:v1: ::1::amazon''
        \<lparr>results = [amazon_result item_a], hasMore = True\<rparr> 600]"
  by (simp add: sample_defs eval_defs)

text \<open>
  Claim C3, amended. For every request whose \<open>q\<close> is absent or empty, the endpoint
  returns HTTP 400 with body \<open>{ error: "Missing search term" }\<close>, the stores are left
  as they were, and no cache lookup and no provider call is made.
\<close>

theorem missing_query_rejected:
  assumes "\<not> truthy (param_q req)"
  shows "GET cfg e req w =
           \<lparr>reply = Some (json_reply (ErrorBody ''Missing search term'') 400),
            after = w, trace = []\<rparr>"
  using assms by (simp add: GET_def truthy_def Let_def split: option.splits)

theorem missing_query_rejected_witness:
  "\<not> truthy (param_q req_absent) \<and>
   GET cfg_both env_healthy req_absent world_cold =
     \<lparr>reply = Some \<lparr>status = 400, body = ErrorBody ''Missing search term''\<rparr>,
      after = world_cold, trace = []\<rparr>"
  using missing_query_rejected [of req_absent cfg_both env_healthy world_cold]
  by (simp add: req_absent_def truthy_def json_reply_def)


section \<open>Provenance of a reply\<close>

text \<open>
  Claim C4, as stated, fails on an L2 hit: the handler tags a reply served from Redis
  with \<open>cacheLayer: "REDIS"\<close> (line 217), which is none of "L1", "L2", "LIVE".
\<close>

theorem redis_layer_counterexample:
  "reply (GET cfg_both env_healthy req_all world_l2) =
     Some (json_reply (SearchBody [bestbuy_result product_b] True True ''REDIS'') 200) \<and>
   ''REDIS'' \<notin> {''L1'', ''L2'', ''LIVE''}"
  by (simp add: sample_defs eval_defs payload_b_def)

lemma live_fetch_layer:
  assumes "reply (live_fetch cfg e w q page pp t tr) = Some r"
    and "body r = SearchBody rs hm c layer"
  shows "layer = ''LIVE''"
proof -
  obtain d ps where
    all: "Promise_all (providerPromises cfg e q page pp) = Settles d (Inr ps)"
    using providerPromises_fulfil by blast
  from assms show ?thesis
    by (auto simp add: live_fetch_run [OF all] json_reply_def)
qed

text \<open>
  Claim C4, amended. For every successful reply, \<open>cacheLayer\<close> is one of "L1", "REDIS"
  or "LIVE"; a reply served from the L2 (Redis) tier carries "REDIS".
\<close>

theorem cacheLayer_values:
  "(\<forall>r rs hm c layer.
      reply (GET cfg e req w) = Some r \<longrightarrow> body r = SearchBody rs hm c layer \<longrightarrow>
      layer \<in> {''L1'', ''REDIS'', ''LIVE''}) \<and>
   (\<forall>q rc. l2_hit cfg e req w q rc \<longrightarrow>
      reply (GET cfg e req w) =
        Some (json_reply (SearchBody (results rc) (hasMore rc) True ''REDIS'') 200))"
proof (intro conjI allI impI)
  fix r rs hm c layer
  assume r: "reply (GET cfg e req w) = Some r" and b: "body r = SearchBody rs hm c layer"
  then show "layer \<in> {''L1'', ''REDIS'', ''LIVE''}"
    by (auto simp add: GET_def Let_def json_reply_def
        split: option.splits if_splits dest: live_fetch_layer)
next
  fix q rc
  assume "l2_hit cfg e req w q rc"
  then show "reply (GET cfg e req w) =
        Some (json_reply (SearchBody (results rc) (hasMore rc) True ''REDIS'') 200)"
    by (auto simp add: GET_def l2_hit_def Let_def split: option.splits)
qed

theorem cacheLayer_values_witness:
  "l2_hit cfg_both env_healthy req_all world_l2 ''AirPods Pro'' payload_b \<and>
   reply (GET cfg_both env_healthy req_all world_l2) =
     Some \<lparr>status = 200, body = SearchBody (results payload_b) (hasMore payload_b) True ''REDIS''\<rparr> \<and>
   ''REDIS'' \<in> {''L1'', ''REDIS'', ''LIVE''}"
  using cacheLayer_values [of cfg_both env_healthy req_all world_l2]
  by (simp add: sample_defs eval_defs)

section \<open>Cache population\<close>

text \<open>
  Claim C6. On every L2 hit the handler stores the Redis payload in L1 under the
  request's key, with expiry 60000 ms after the clock at that moment; a repetition of
  the request that starts before that expiry is answered from L1 with the same payload
  and makes no call but the L1 lookup.
\<close>

theorem l2_hit_backfills_l1:
  assumes hit: "l2_hit cfg e req w q rc"
  shows "cache (after (GET cfg e req w)) (makeCacheKey q (page_of req) (providerParam_of req)) =
           Some \<lparr>expires = now e + redis_get_ms e + 60000, data = rc\<rparr> \<and>
         (\<forall>e'. now e' < now e + redis_get_ms e + 60000 \<longrightarrow>
            GET cfg e' req (after (GET cfg e req w)) =
              \<lparr>reply = Some (json_reply (SearchBody (results rc) (hasMore rc) True ''L1'') 200),
               after = after (GET cfg e req w),
               trace = [CacheGet (makeCacheKey q (page_of req) (providerParam_of req))]\<rparr>)"
proof -
  let ?k = "makeCacheKey q (page_of req) (providerParam_of req)"
  let ?entry = "\<lparr>expires = now e + redis_get_ms e + 60000, data = rc\<rparr>"
  from hit have first:
    "after (GET cfg e req w) = w\<lparr>cache := (cache w)(?k \<mapsto> ?entry)\<rparr>"
    by (auto simp add: GET_def l2_hit_def Let_def CACHE_TTL_MS_def split: option.splits)
  from hit have q: "param_q req = Some q" "q \<noteq> []"
    and keys: "truthy (RAINFOREST_API_KEY cfg) \<or> truthy (BESTBUY_API_KEY cfg)"
    by (simp_all add: l2_hit_def)
  have second: "GET cfg e' req (w\<lparr>cache := (cache w)(?k \<mapsto> ?entry)\<rparr>) =
              \<lparr>reply = Some (json_reply (SearchBody (results rc) (hasMore rc) True ''L1'') 200),
               after = w\<lparr>cache := (cache w)(?k \<mapsto> ?entry)\<rparr>,
               trace = [CacheGet ?k]\<rparr>"
    if "now e' < now e + redis_get_ms e + 60000" for e'
    using that q keys by (auto simp add: GET_def Let_def)
  from first second show ?thesis by simp
qed

theorem l2_hit_backfills_l1_witness:
  "l2_hit cfg_both env_healthy req_all world_l2 ''AirPods Pro'' payload_b \<and>
   cache (after (GET cfg_both env_healthy req_all world_l2)) ''airpods pro::1::all'' =
     Some \<lparr>expires = 61005, data = payload_b\<rparr> \<and>
   now env_later < 61005 \<and>
   reply (GET cfg_both env_later req_all (after (GET cfg_both env_healthy req_all world_l2))) =
     Some (json_reply (SearchBody (results payload_b) (hasMore payload_b) True ''L1'') 200)"
  using l2_hit_backfills_l1 [of cfg_both env_healthy req_all world_l2 "''AirPods Pro''" payload_b]
  by (simp add: sample_defs eval_defs)

lemma provider_calls_no_RedisSet: "RedisSet k v ttl \<notin> set (provider_calls cfg e q page pp)"
  by (auto simp add: provider_calls_def fetchAmazon_def fetchBestBuy_def)

text \<open>
  Claim C5. After every live fetch the merged payload is stored in L1 under the
  request's key, whether or not it has results. The write to Redis is issued exactly
  when the payload has results: with none, no Redis write is made and the Redis store
  is unchanged; with some, the store holds the payload under the Redis key unless the
  write throws, which the handler absorbs.
\<close>

theorem cache_write_policy:
  assumes live: "reaches_live_fetch cfg e req w q"
  shows "\<exists>d ps.
           Promise_all (providerPromises cfg e q (page_of req) (providerParam_of req)) =
             Settles d (Inr ps) \<and>
           reply (GET cfg e req w) =
             Some (json_reply
                     (SearchBody (results (merge_payload ps)) (hasMore (merge_payload ps))
                        False ''LIVE'')
                     200) \<and>
           cache (after (GET cfg e req w)) (makeCacheKey q (page_of req) (providerParam_of req)) =
             Some \<lparr>expires = now e + redis_get_ms e + d + 60000, data = merge_payload ps\<rparr> \<and>
           CacheSet (makeCacheKey q (page_of req) (providerParam_of req))
               \<lparr>expires = now e + redis_get_ms e + d + 60000, data = merge_payload ps\<rparr>
             \<in> set (trace (GET cfg e req w)) \<and>
           (RedisSet (makeRedisKey q (page_of req) (providerParam_of req)) (merge_payload ps) 600
              \<in> set (trace (GET cfg e req w)) \<longleftrightarrow> results (merge_payload ps) \<noteq> []) \<and>
           (results (merge_payload ps) = [] \<longrightarrow>
              (\<forall>k v ttl. RedisSet k v ttl \<notin> set (trace (GET cfg e req w))) \<and>
              redis (after (GET cfg e req w)) = redis w) \<and>
           (results (merge_payload ps) \<noteq> [] \<longrightarrow>
              redis (after (GET cfg e req w)) =
                (if redis_set_throws e then redis w
                 else (redis w)(makeRedisKey q (page_of req) (providerParam_of req) \<mapsto>
                                merge_payload ps)))"
proof -
  obtain d ps where
    all: "Promise_all (providerPromises cfg e q (page_of req) (providerParam_of req)) =
            Settles d (Inr ps)"
    using providerPromises_fulfil by blast
  note run = live_fetch_run [OF all] GET_reaches_live [OF live]
  have rep: "reply (GET cfg e req w) =
             Some (json_reply
                     (SearchBody (results (merge_payload ps)) (hasMore (merge_payload ps))
                        False ''LIVE'')
                     200)"
    by (simp add: run)
  have l1: "cache (after (GET cfg e req w)) (makeCacheKey q (page_of req) (providerParam_of req)) =
             Some \<lparr>expires = now e + redis_get_ms e + d + 60000, data = merge_payload ps\<rparr>"
    by (simp add: run CACHE_TTL_MS_def)
  have l1ev: "CacheSet (makeCacheKey q (page_of req) (providerParam_of req))
               \<lparr>expires = now e + redis_get_ms e + d + 60000, data = merge_payload ps\<rparr>
             \<in> set (trace (GET cfg e req w))"
    by (simp add: run CACHE_TTL_MS_def)
  have l2ev: "RedisSet (makeRedisKey q (page_of req) (providerParam_of req)) (merge_payload ps) 600
              \<in> set (trace (GET cfg e req w)) \<longleftrightarrow> results (merge_payload ps) \<noteq> []"
    by (simp add: run REDIS_TTL_SECONDS_def provider_calls_no_RedisSet)
  have empty: "(\<forall>k v ttl. RedisSet k v ttl \<notin> set (trace (GET cfg e req w))) \<and>
              redis (after (GET cfg e req w)) = redis w"
    if "results (merge_payload ps) = []"
    using that by (simp add: run provider_calls_no_RedisSet)
  have nonempty: "redis (after (GET cfg e req w)) =
                (if redis_set_throws e then redis w
                 else (redis w)(makeRedisKey q (page_of req) (providerParam_of req) \<mapsto>
                                merge_payload ps))"
    if "results (merge_payload ps) \<noteq> []"
    using that by (simp add: run)
  from all rep l1 l1ev l2ev empty nonempty show ?thesis
    by blast
qed

theorem cache_write_policy_witness:
  "reaches_live_fetch cfg_both env_amazon_hangs req_all world_cold ''AirPods Pro'' \<and>
   cache (after (GET cfg_both env_amazon_hangs req_all world_cold)) ''airpods pro::1::all'' =
     Some \<lparr>expires = 65005,
           data = \<lparr>results = [bestbuy_result product_b], hasMore = False\<rparr>\<rparr> \<and>
   redis (after (GET cfg_both env_amazon_hangs req_all world_cold))
       ''dealscope:search:v1:airpods pro::1::all'' =
     Some \<lparr>results = [bestbuy_result product_b], hasMore = False\<rparr> \<and>
   RedisSet ''dealscope:search:v1:airpods pro::1::all''
       \<lparr>results = [bestbuy_result product_b], hasMore = False\<rparr> 600
     \<in> set (trace (GET cfg_both env_amazon_hangs req_all world_cold)) \<and>
   reaches_live_fetch cfg_both env_healthy req_walmart world_cold ''AirPods Pro'' \<and>
   cache (after (GET cfg_both env_healthy req_walmart world_cold)) ''airpods pro::1::walmart'' =
     Some \<lparr>expires = 61005, data = \<lparr>results = [], hasMore = False\<rparr>\<rparr> \<and>
   redis (after (GET cfg_both env_healthy req_walmart world_cold)) = redis world_cold \<and>
   trace (GET cfg_both env_healthy req_walmart world_cold) =
     [CacheGet ''airpods pro::1::walmart'',
      RedisGet ''dealscope:search:v1:airpods pro::1::walmart'',
      CacheSet ''airpods pro::1::walmart''
        \<lparr>expires = 61005, data = \<lparr>results = [], hasMore = False\<rparr>\<rparr>]"
  using cache_write_policy [of cfg_both env_amazon_hangs req_all world_cold "''AirPods Pro''"]
    cache_write_policy [of cfg_both env_healthy req_walmart world_cold "''AirPods Pro''"]
  by (simp add: sample_defs eval_defs)

section \<open>The page number\<close>

subsection \<open>Rounding to a double\<close>

lemma bit_length_bounds:
  "0 < m \<Longrightarrow> 2 ^ (bit_length m - 1) \<le> m \<and> m < 2 ^ bit_length m"
proof (induction m rule: bit_length.induct)
  case (1 n)
  show ?case
  proof (cases "n div 2 = 0")
    case True
    with "1.prems" have "n = 1" by auto
    then show ?thesis
      by (simp add: bit_length.simps)
  next
    case False
    then have pos: "0 < n div 2" by simp
    from "1.prems" have n0: "n \<noteq> 0" by simp
    from "1.IH" [OF n0 pos] have
      lo: "2 ^ (bit_length (n div 2) - 1) \<le> n div 2" and hi: "n div 2 < 2 ^ bit_length (n div 2)"
      by simp_all
    have bl: "bit_length n = Suc (bit_length (n div 2))"
      using n0 by (subst bit_length.simps) simp
    from pos have blpos: "0 < bit_length (n div 2)"
      by (subst bit_length.simps) simp
    then obtain b where b: "bit_length (n div 2) = Suc b"
      by (cases "bit_length (n div 2)") simp_all
    from lo b have "2 * 2 ^ b \<le> 2 * (n div 2)" by simp
    also have "\<dots> \<le> n" by simp
    finally have l: "2 ^ (bit_length n - 1) \<le> n"
      by (simp add: bl b)
    from hi have "n div 2 + 1 \<le> 2 ^ bit_length (n div 2)" by simp
    then have "2 * (n div 2) + 2 \<le> 2 * 2 ^ bit_length (n div 2)" by simp
    moreover have "n < 2 * (n div 2) + 2" by presburger
    ultimately have "n < 2 ^ bit_length n"
      by (simp add: bl)
    with l show ?thesis by simp
  qed
qed

lemma round_double_small: "m < 2 ^ 53 \<Longrightarrow> round_double m = Some m"
  by (simp add: round_double_def)

lemma round_double_range: "round_double m = Some n \<Longrightarrow> n < 2 ^ 1024"
  by (auto simp add: round_double_def Let_def split: if_splits)


lemma round_double_large:
  assumes "2 ^ 53 \<le> m"
  shows "53 < bit_length m"
    and "2 ^ (bit_length m - 53) \<le> m"
    and "2 ^ 52 \<le> m div 2 ^ (bit_length m - 53)"
proof -
  from assms have pos: "0 < m"
    by (rule less_le_trans [rotated]) simp
  from bit_length_bounds [OF pos] have
    lo: "2 ^ (bit_length m - 1) \<le> m" and hi: "m < 2 ^ bit_length m"
    by simp_all
  have two: "(1::nat) < 2" by simp
  from assms hi have "(2::nat) ^ 53 < 2 ^ bit_length m" by (rule le_less_trans)
  then show bl: "53 < bit_length m" by (rule power_less_imp_less_exp [OF two])
  have "(2::nat) ^ (bit_length m - 53) \<le> 2 ^ (bit_length m - 1)"
    by (rule power_increasing) simp_all
  from this lo show "2 ^ (bit_length m - 53) \<le> m" by (rule le_trans)
  from bl have "bit_length m - 1 = 52 + (bit_length m - 53)" by simp
  then have "(2::nat) ^ (bit_length m - 1) = 2 ^ 52 * 2 ^ (bit_length m - 53)"
    by (simp only: power_add)
  with lo have "2 ^ 52 * 2 ^ (bit_length m - 53) \<le> m" by simp
  then show "2 ^ 52 \<le> m div 2 ^ (bit_length m - 53)"
    by (simp add: less_eq_div_iff_mult_less_eq)
qed

lemma round_double_positive:
  assumes "round_double m = Some n" and "0 < m"
  shows "0 < n"
proof (cases "m < 2 ^ 53")
  case True
  with assms show ?thesis by (simp add: round_double_def)
next
  case False
  then have big: "2 ^ 53 \<le> m" by simp
  from round_double_large(3) [OF big] have q: "0 < m div 2 ^ (bit_length m - 53)"
    by (rule less_le_trans [rotated]) simp
  from assms(1) False q show ?thesis
    by (auto simp add: round_double_def Let_def split: if_splits)
qed

lemma round_double_overflow:
  assumes "2 ^ 1024 \<le> m"
  shows "round_double m = None"
proof -
  have "(2::nat) ^ 53 \<le> 2 ^ 1024" by (rule power_increasing) simp_all
  with assms have big: "2 ^ 53 \<le> m" by simp
  then have nsmall: "\<not> m < 2 ^ 53" by simp
  let ?e = "bit_length m - 53"
  let ?q = "m div 2 ^ ?e"
  from assms have pos: "0 < m"
    by (rule less_le_trans [rotated]) simp
  from bit_length_bounds [OF pos] have hi: "m < 2 ^ bit_length m" by simp
  have two: "(1::nat) < 2" by simp
  from assms hi have "(2::nat) ^ 1024 < 2 ^ bit_length m" by (rule le_less_trans)
  then have bl: "1024 < bit_length m" by (rule power_less_imp_less_exp [OF two])
  then have "(1024::nat) \<le> 52 + ?e" by simp
  then have "(2::nat) ^ 1024 \<le> 2 ^ (52 + ?e)"
    by (rule power_increasing) simp
  also have "\<dots> = 2 ^ 52 * 2 ^ ?e" by (simp only: power_add)
  also have "\<dots> \<le> ?q * 2 ^ ?e"
    using round_double_large(3) [OF big] by (rule mult_le_mono1)
  finally have q: "2 ^ 1024 \<le> ?q * 2 ^ ?e" .
  also have "?q * 2 ^ ?e \<le> (?q + 1) * 2 ^ ?e" by simp
  finally have q1: "2 ^ 1024 \<le> (?q + 1) * 2 ^ ?e" .
  from nsmall q q1 show ?thesis
    by (simp only: round_double_def Let_def if_False if_True split: if_splits) simp
qed

lemma digits_value_zeros:
  "foldl (\<lambda>a c. 10 * a + digit_value c) a (replicate n 0x30) = a * 10 ^ n"
  by (induction n arbitrary: a) (simp_all add: digit_value_def)

subsection \<open>The page of a request\<close>

lemmas parse_defs = code_units_def digit_run_def minus_sign_def digits_value_def digit_value_def
  is_digit_def is_white_space_def

lemma digits_value_Nil: "digits_value [] = 0"
  by (simp add: digits_value_def)

lemma page_of_parsed:
  assumes "param_page req = Some s" and "s \<noteq> []" and "0 < digits_value (digit_run s)"
  shows "page_of req = signed_double (minus_sign s) (digits_value (digit_run s))"
proof -
  from assms(3) have run: "digit_run s \<noteq> []"
    by (auto simp add: digits_value_Nil)
  have "signed_double (minus_sign s) (digits_value (digit_run s)) \<noteq> Finite 0"
  proof (cases "round_double (digits_value (digit_run s))")
    case None
    then show ?thesis by (simp add: signed_double_def)
  next
    case (Some n)
    from Some assms(3) have "0 < n" by (rule round_double_positive)
    with Some show ?thesis by (simp add: signed_double_def)
  qed
  with assms(1,2) run show ?thesis
    by (simp add: page_of_def parseInt_def)
qed

lemma page_of_zero_run:
  assumes "param_page req = Some s" and "digits_value (digit_run s) = 0"
  shows "page_of req = Finite 1"
  using assms
  by (simp add: page_of_def parseInt_def signed_double_def round_double_small)

text \<open>
  Claim C8, as stated, fails for a negative page: \<open>page=-5\<close> parses to \<open>-5\<close>, which is
  truthy, so \<open>-5\<close> is the page in the cache keys and in the provider call.
\<close>

theorem negative_page_counterexample:
  "param_page req_negative_page = Some [0x2D, 0x35] \<and>
   page_of req_negative_page = Finite (- 5) \<and> (- 5 :: int) < 0 \<and>
   trace (GET cfg_both env_healthy req_negative_page world_cold) =
     [CacheGet ''airpods pro::-5::amazon'',
      RedisGet ''dealscope:search:v1:airpods pro::-5::amazon'',
      ProviderCall Amazon ''AirPods Pro'' (Finite (- 5)),
      HttpFetch Amazon ''AirPods Pro'' (Finite (- 5)),
      CacheSet ''airpods pro::-5::amazon''
        \<lparr>expires = 61305, data = \<lparr>results = [amazon_result item_a], hasMore = True\<rparr>\<rparr>,
      RedisSet ''dealscope:search:v1:airpods pro::-5::amazon''
        \<lparr>results = [amazon_result item_a], hasMore = True\<rparr> 600]"
proof -
  have units: "param_page req_negative_page = Some [0x2D, 0x35]"
    by (simp add: req_negative_page_def code_units_def)
  have page: "page_of req_negative_page = Finite (- 5)"
    by (simp add: page_of_def units parseInt_def signed_double_def round_double_def parse_defs)
  have "trace (GET cfg_both env_healthy req_negative_page world_cold) =
     [CacheGet ''airpods pro::-5::amazon'',
      RedisGet ''dealscope:search:v1:airpods pro::-5::amazon'',
      ProviderCall Amazon ''AirPods Pro'' (Finite (- 5)),
      HttpFetch Amazon ''AirPods Pro'' (Finite (- 5)),
      CacheSet ''airpods pro::-5::amazon''
        \<lparr>expires = 61305, data = \<lparr>results = [amazon_result item_a], hasMore = True\<rparr>\<rparr>,
      RedisSet ''dealscope:search:v1:airpods pro::-5::amazon''
        \<lparr>results = [amazon_result item_a], hasMore = True\<rparr> 600]"
    unfolding GET_def page
    by (simp add: cfg_both_def env_healthy_def world_cold_def req_negative_page_def
        live_fetch_def providerPromises_def provider_calls_def merge_payload_def guarded_def
        withTimeout_def promise_catch_def fetchAmazon_def fetchBestBuy_def amazon_outcome_def
        empty_outcome_def ok_def truthy_def json_reply_def useAmazon_def useBestBuy_def
        providerParam_of_def makeCacheKey_def makeRedisKey_def toLowerCase_def toLowerChar_def
        number_to_string_def double_to_string_def shortest_decimal_def decimal_candidates_def
        closest_def round_double_def show_nat.simps Let_def CACHE_TTL_MS_def
        REDIS_TTL_SECONDS_def)
  with units page show ?thesis by simp
qed

text \<open>
  Claim C8, amended. The page used is a number other than 0 and of magnitude below
  \<open>2^1024\<close> or infinite; it is not always a positive integer. It is 1 when \<open>page\<close> is
  absent or empty, or when its digit run (what \<open>parseInt\<close> reads after leading white
  space and one sign) is missing or has value 0. Otherwise it is the double nearest to
  the value of the digit run, negated after a minus sign: that very value below \<open>2^53\<close>,
  and \<open>Infinity\<close> or \<open>-Infinity\<close> from \<open>2^1024\<close> on. It is a positive integer exactly
  when there is no minus sign and the rounded value is finite.
\<close>

theorem page_number_used:
  "page_of req \<noteq> Finite 0 \<and>
   (\<forall>i. page_of req = Finite i \<longrightarrow> \<bar>i\<bar> < 2 ^ 1024) \<and>
   (\<not> truthy (param_page req) \<longrightarrow> page_of req = Finite 1) \<and>
   (\<forall>s m. param_page req = Some s \<longrightarrow> s \<noteq> [] \<longrightarrow> m = digits_value (digit_run s) \<longrightarrow>
      (m = 0 \<longrightarrow> page_of req = Finite 1) \<and>
      (0 < m \<longrightarrow>
         (m < 2 ^ 53 \<longrightarrow> page_of req = Finite (if minus_sign s then - int m else int m)) \<and>
         (2 ^ 1024 \<le> m \<longrightarrow> page_of req = (if minus_sign s then NegInfinity else PosInfinity)) \<and>
         (\<forall>n. round_double m = Some n \<longrightarrow>
            0 < n \<and> page_of req = Finite (if minus_sign s then - int n else int n)) \<and>
         (round_double m = None \<longrightarrow>
            page_of req = (if minus_sign s then NegInfinity else PosInfinity)) \<and>
         ((\<exists>n. 0 < n \<and> page_of req = Finite n) \<longleftrightarrow>
            \<not> minus_sign s \<and> round_double m \<noteq> None)))"
proof (intro conjI allI impI)
  show "page_of req \<noteq> Finite 0"
    by (auto simp add: page_of_def split: option.splits)
next
  fix i
  assume "page_of req = Finite i"
  then show "\<bar>i\<bar> < 2 ^ 1024"
    by (auto simp add: page_of_def parseInt_def signed_double_def
        split: option.splits if_splits dest!: round_double_range)
next
  assume "\<not> truthy (param_page req)"
  then show "page_of req = Finite 1"
    by (auto simp add: page_of_def truthy_def split: option.splits)
next
  fix s m
  assume "param_page req = Some s" and "m = digits_value (digit_run s)" and "m = 0"
  then show "page_of req = Finite 1"
    by (simp add: page_of_zero_run)
next
  fix s m
  assume s: "param_page req = Some s" "s \<noteq> []" and m: "m = digits_value (digit_run s)" "0 < m"
    and small: "m < 2 ^ 53"
  from s m have "page_of req = signed_double (minus_sign s) m"
    by (simp add: page_of_parsed)
  with small show "page_of req = Finite (if minus_sign s then - int m else int m)"
    by (simp add: signed_double_def round_double_small)
next
  fix s m
  assume s: "param_page req = Some s" "s \<noteq> []" and m: "m = digits_value (digit_run s)" "0 < m"
    and big: "2 ^ 1024 \<le> m"
  from s m have "page_of req = signed_double (minus_sign s) m"
    by (simp add: page_of_parsed)
  with round_double_overflow [OF big]
  show "page_of req = (if minus_sign s then NegInfinity else PosInfinity)"
    by (simp add: signed_double_def)
next
  fix s m n
  assume s: "param_page req = Some s" "s \<noteq> []" and m: "m = digits_value (digit_run s)" "0 < m"
    and r: "round_double m = Some n"
  from r m(2) show "0 < n" by (rule round_double_positive)
next
  fix s m n
  assume s: "param_page req = Some s" "s \<noteq> []" and m: "m = digits_value (digit_run s)" "0 < m"
    and r: "round_double m = Some n"
  from s m have "page_of req = signed_double (minus_sign s) m"
    by (simp add: page_of_parsed)
  with r show "page_of req = Finite (if minus_sign s then - int n else int n)"
    by (simp add: signed_double_def)
next
  fix s m
  assume s: "param_page req = Some s" "s \<noteq> []" and m: "m = digits_value (digit_run s)" "0 < m"
    and r: "round_double m = None"
  from s m have "page_of req = signed_double (minus_sign s) m"
    by (simp add: page_of_parsed)
  with r show "page_of req = (if minus_sign s then NegInfinity else PosInfinity)"
    by (simp add: signed_double_def)
next
  fix s m
  assume s: "param_page req = Some s" "s \<noteq> []" and m: "m = digits_value (digit_run s)" "0 < m"
  from s m have p: "page_of req = signed_double (minus_sign s) m"
    by (simp add: page_of_parsed)
  show "(\<exists>n. 0 < n \<and> page_of req = Finite n) \<longleftrightarrow> \<not> minus_sign s \<and> round_double m \<noteq> None"
  proof (cases "round_double m")
    case None
    with p show ?thesis by (simp add: signed_double_def)
  next
    case (Some n)
    from Some m(2) have "0 < n" by (rule round_double_positive)
    with p Some show ?thesis by (auto simp add: signed_double_def)
  qed
qed

theorem page_number_used_witness:
  "param_page req_negative_page = Some [0x2D, 0x35] \<and> page_of req_negative_page = Finite (- 5) \<and>
   \<not> truthy (param_page req_default) \<and> page_of req_default = Finite 1 \<and>
   param_page req_page_word = Some [0x74, 0x77, 0x6F] \<and> page_of req_page_word = Finite 1 \<and>
   param_page req_page_zero = Some [0x30] \<and> page_of req_page_zero = Finite 1 \<and>
   param_page req_absent = Some [0x32] \<and> page_of req_absent = Finite 2 \<and>
   param_page req_page_nbsp = Some [0xA0, 0x35] \<and> page_of req_page_nbsp = Finite 5 \<and>
   param_page req_page_huge = Some (0x31 # replicate 309 0x30) \<and>
   digits_value (digit_run (0x31 # replicate 309 0x30)) = 10 ^ 309 \<and>
   (2::nat) ^ 1024 \<le> 10 ^ 309 \<and>
   page_of req_page_huge = PosInfinity \<and>
   number_to_string (page_of req_page_huge) = ''Infinity''"
proof -
  have run: "digit_run (0x31 # replicate 309 0x30) = 0x31 # replicate 309 0x30"
    by (simp add: digit_run_def is_digit_def is_white_space_def)
  have val: "digits_value (0x31 # replicate 309 0x30) = 10 ^ 309"
    by (simp add: digits_value_def digits_value_zeros) (simp add: digit_value_def)
  have sign: "\<not> minus_sign (0x31 # replicate 309 0x30)"
    by (simp add: minus_sign_def is_white_space_def)
  have big: "(2::nat) ^ 1024 \<le> 10 ^ 309"
    by simp
  from page_number_used [of req_page_huge] run val sign big
  have huge: "page_of req_page_huge = PosInfinity"
    by (simp add: req_page_huge_def)
  from page_number_used [of req_negative_page] page_number_used [of req_default]
    page_number_used [of req_page_word] page_number_used [of req_page_zero]
    page_number_used [of req_absent] page_number_used [of req_page_nbsp]
    huge run val big
  show ?thesis
    by (simp add: req_negative_page_def req_default_def req_page_word_def req_page_zero_def
        req_absent_def req_page_nbsp_def req_page_huge_def truthy_def parse_defs
        number_to_string_def)
qed

section \<open>The provider scope\<close>

text \<open>
  Claim C9, as stated, fails when only the Best Buy key is configured: the first
  configured provider is then Best Buy, yet a request without \<open>provider\<close> is processed
  with scope "amazon"; the Amazon adapter is called, finds no key and answers empty.
\<close>

theorem default_provider_counterexample:
  "param_provider req_default = None \<and>
   first_configured_tag cfg_bestbuy_only = Some ''bestbuy'' \<and>
   providerParam_of req_default = ''amazon'' \<and>
   GET cfg_bestbuy_only env_healthy req_default world_cold =
     \<lparr>reply = Some (json_reply (SearchBody [] False False ''LIVE'') 200),
      after = \<lparr>cache = [''airpods pro::1::amazon'' \<mapsto>
                          \<lparr>expires = 61005, data = \<lparr>results = [], hasMore = False\<rparr>\<rparr>],
                redis = Map.empty\<rparr>,
      trace = [CacheGet ''airpods pro::1::amazon'',
               RedisGet ''dealscope:search:v1:airpods pro::1::amazon'',
               ProviderCall Amazon ''AirPods Pro'' (Finite 1),
               CacheSet ''airpods pro::1::amazon''
                 \<lparr>expires = 61005, data = \<lparr>results = [], hasMore = False\<rparr>\<rparr>]\<rparr>"
  by (simp add: sample_defs eval_defs first_configured_tag_def)

text \<open>
  Claim C9, amended. When \<open>provider\<close> is absent (or empty), the request is processed
  with provider scope "amazon", whatever credentials are configured: only the Amazon
  adapter is selected, and the run is the run of the same request with
  \<open>provider=amazon\<close>.
\<close>

theorem default_provider_amazon:
  assumes "\<not> truthy (param_provider req)"
  shows "providerParam_of req = ''amazon'' \<and>
         useAmazon (providerParam_of req) \<and> \<not> useBestBuy (providerParam_of req) \<and>
         GET cfg e req w = GET cfg e (req\<lparr>param_provider := Some ''amazon''\<rparr>) w"
proof -
  from assms have p: "providerParam_of req = ''amazon''"
    by (auto simp add: providerParam_of_def truthy_def toLowerCase_def toLowerChar_def
        split: option.splits)
  have p': "providerParam_of (req\<lparr>param_provider := Some ''amazon''\<rparr>) = ''amazon''"
    by (simp add: providerParam_of_def toLowerCase_def toLowerChar_def)
  have "GET cfg e req w = GET cfg e (req\<lparr>param_provider := Some ''amazon''\<rparr>) w"
    by (simp add: GET_def p p' page_of_def)
  with p show ?thesis
    by (simp add: useAmazon_def useBestBuy_def)
qed

theorem default_provider_amazon_witness:
  "\<not> truthy (param_provider req_default) \<and>
   providerParam_of req_default = ''amazon'' \<and>
   GET cfg_bestbuy_only env_healthy req_default world_cold =
     GET cfg_bestbuy_only env_healthy (req_default\<lparr>param_provider := Some ''amazon''\<rparr>) world_cold"
  using default_provider_amazon [of req_default cfg_bestbuy_only env_healthy world_cold]
  by (simp add: req_default_def truthy_def)

text \<open>
  Claim C10, as stated, fails for an empty \<open>provider\<close>: the empty string is none of
  the three tags, but \<open>"" || "amazon"\<close> selects Amazon, so a provider call is made and
  the reply carries its results.
\<close>

theorem empty_provider_counterexample:
  "param_provider req_empty_provider = Some [] \<and>
   toLowerCase [] \<notin> {''amazon'', ''bestbuy'', ''all''} \<and>
   reaches_live_fetch cfg_both env_healthy req_empty_provider world_cold ''AirPods Pro'' \<and>
   reply (GET cfg_both env_healthy req_empty_provider world_cold) =
     Some (json_reply (SearchBody [amazon_result item_a] True False ''LIVE'') 200) \<and>
   trace (GET cfg_both env_healthy req_empty_provider world_cold) =
     [CacheGet ''airpods pro::1::amazon'',
      RedisGet ''dealscope:search:v1:airpods pro::1::amazon'',
      ProviderCall Amazon ''AirPods Pro'' (Finite 1), HttpFetch Amazon ''AirPods Pro'' (Finite 1),
      CacheSet ''airpods pro::1::amazon''
        \<lparr>expires = 61305, data = \<lparr>results = [amazon_result item_a], hasMore = True\<rparr>\<rparr>,
      RedisSet ''dealscope:search:v1:airpods pro::1::amazon''
        \<lparr>results = [amazon_result item_a], hasMore = True\<rparr> 600]"
  by (simp add: sample_defs eval_defs)

text \<open>
  Claim C10, amended. For every request that reaches the live fetch (non-empty query,
  some credential configured, no unexpired L1 entry, nothing read from Redis) with a
  non-empty \<open>provider\<close> whose lower-casing is none of "amazon", "bestbuy", "all": no
  provider call is made, the reply is HTTP 200 with
  \<open>{ results: [], hasMore: false, cached: false, cacheLayer: "LIVE" }\<close>, and this empty
  payload is stored in L1 under the key of that provider tag; Redis is not written.
\<close>

theorem unknown_provider_tag:
  assumes live: "reaches_live_fetch cfg e req w q"
    and p: "param_provider req = Some p" "p \<noteq> []"
    and unknown: "toLowerCase p \<notin> {''amazon'', ''bestbuy'', ''all''}"
  shows "GET cfg e req w =
           \<lparr>reply = Some (json_reply (SearchBody [] False False ''LIVE'') 200),
            after = w\<lparr>cache := (cache w)(makeCacheKey q (page_of req) (toLowerCase p) \<mapsto>
                                  \<lparr>expires = now e + redis_get_ms e + 60000,
                                   data = \<lparr>results = [], hasMore = False\<rparr>\<rparr>)\<rparr>,
            trace = [CacheGet (makeCacheKey q (page_of req) (toLowerCase p)),
                     RedisGet (makeRedisKey q (page_of req) (toLowerCase p)),
                     CacheSet (makeCacheKey q (page_of req) (toLowerCase p))
                       \<lparr>expires = now e + redis_get_ms e + 60000,
                        data = \<lparr>results = [], hasMore = False\<rparr>\<rparr>]\<rparr>"
proof -
  from p have pp: "providerParam_of req = toLowerCase p"
    by (simp add: providerParam_of_def)
  with unknown have use: "\<not> useAmazon (providerParam_of req)" "\<not> useBestBuy (providerParam_of req)"
    by (simp_all add: useAmazon_def useBestBuy_def)
  then have all: "Promise_all (providerPromises cfg e q (page_of req) (providerParam_of req)) =
                    Settles 0 (Inr [])"
    and calls: "provider_calls cfg e q (page_of req) (providerParam_of req) = []"
    by (simp_all add: providerPromises_def provider_calls_def)
  show ?thesis
    by (simp add: GET_reaches_live [OF live] live_fetch_run [OF all] calls merge_payload_def
        CACHE_TTL_MS_def flip: pp)
qed

theorem unknown_provider_tag_witness:
  "reaches_live_fetch cfg_both env_healthy req_walmart world_cold ''AirPods Pro'' \<and>
   param_provider req_walmart = Some ''Walmart'' \<and>
   toLowerCase ''Walmart'' = ''walmart'' \<and>
   GET cfg_both env_healthy req_walmart world_cold =
     \<lparr>reply = Some (json_reply (SearchBody [] False False ''LIVE'') 200),
      after = world_cold\<lparr>cache := (cache world_cold)(''airpods pro::1::walmart'' \<mapsto>
                                  \<lparr>expires = 61005,
                                   data = \<lparr>results = [], hasMore = False\<rparr>\<rparr>)\<rparr>,
      trace = [CacheGet ''airpods pro::1::walmart'',
               RedisGet ''dealscope:search:v1:airpods pro::1::walmart'',
               CacheSet ''airpods pro::1::walmart''
                 \<lparr>expires = 61005, data = \<lparr>results = [], hasMore = False\<rparr>\<rparr>]\<rparr>"
  using unknown_provider_tag [of cfg_both env_healthy req_walmart world_cold "''AirPods Pro''"
      "''Walmart''"]
  by (simp add: sample_defs eval_defs)


end
